theory Spec2Isabelle
  imports Complex_Main "HOL-Library.Sublist"
begin

section \<open>JavaScript strings\<close>

text \<open>
  A JavaScript string is a sequence of UTF-16 code units. A code unit is modelled by its
  numeric value, so that the character classes of the regular expressions (\<open>\s\<close> covers
  white space far beyond ASCII) keep their full extent. \<open>js\<close> turns a literal of the
  theory into such a string.
\<close>

type_synonym jschar = nat
type_synonym jsstring = "nat list"

definition js :: "string \<Rightarrow> jsstring" where
  "js s = map of_char s"

text \<open>
  The values a parsed JSON body can hold in a field, and \<open>undefined\<close> for a field that
  is absent. \<open>truthy\<close> is what \<open>!v\<close> and \<open>v || ''\<close> test.
\<close>

datatype jsvalue =
    JUndefined
  | JNull
  | JBoolean bool
  | JNumber real
  | JString jsstring
  | JArray "jsvalue list"
  | JObject "(jsstring \<times> jsvalue) list"

fun truthy :: "jsvalue \<Rightarrow> bool" where
  "truthy JUndefined = False"
| "truthy JNull = False"
| "truthy (JBoolean b) = b"
| "truthy (JNumber x) = (x \<noteq> 0)"
| "truthy (JString s) = (s \<noteq> [])"
| "truthy (JArray xs) = True"
| "truthy (JObject kvs) = True"

text \<open>
  \<open>\w\<close> is \<open>[A-Za-z0-9_]\<close>. The regular expressions of the source carry no \<open>u\<close>
  flag, so the \<open>i\<close> flag does not widen it.
\<close>

definition isWordChar :: "jschar \<Rightarrow> bool" where
  "isWordChar c = ((48 \<le> c \<and> c \<le> 57) \<or> (65 \<le> c \<and> c \<le> 90) \<or> c = 95 \<or> (97 \<le> c \<and> c \<le> 122))"

text \<open>
  \<open>\s\<close>, which is also what \<open>String.prototype.trim\<close> and the validator's \<open>trim\<close>
  remove: tab, line feed, vertical tab, form feed, carriage return, space, no-break space,
  U+1680, U+2000 to U+200A, U+2028, U+2029, U+202F, U+205F, U+3000 and U+FEFF.
\<close>

definition isWhiteSpace :: "jschar \<Rightarrow> bool" where
  "isWhiteSpace c = ((9 \<le> c \<and> c \<le> 13) \<or> c = 32 \<or> c = 160 \<or> c = 5760 \<or> (8192 \<le> c \<and> c \<le> 8202)
      \<or> c = 8232 \<or> c = 8233 \<or> c = 8239 \<or> c = 8287 \<or> c = 12288 \<or> c = 65279)"

definition isDigit :: "jschar \<Rightarrow> bool" where
  "isDigit c = (48 \<le> c \<and> c \<le> 57)"

text \<open>
  Case-insensitive comparison (flag \<open>i\<close> without \<open>u\<close>) compares the upper-case forms
  of two code units, and a code unit from 128 on is never mapped below 128. Every pattern
  character compared below is ASCII, so only the ASCII part of the mapping can decide a
  comparison, and only that part is written out.
\<close>

definition canonicalize :: "jschar \<Rightarrow> jschar" where
  "canonicalize c = (if 97 \<le> c \<and> c \<le> 122 then c - 32 else c)"

fun ciPrefix :: "jsstring \<Rightarrow> jsstring \<Rightarrow> bool" where
  "ciPrefix [] s = True"
| "ciPrefix (p # ps) [] = False"
| "ciPrefix (p # ps) (c # cs) = (canonicalize p = canonicalize c \<and> ciPrefix ps cs)"

text \<open>
  \<open>str.replace(re, '')\<close> with a global regular expression: the matcher \<open>m\<close> answers,
  for the text from the current position on, the length of the match that starts there, if
  any. The scan goes from left to right; a match is dropped and the scan goes on behind it,
  the result is not scanned again. An empty match keeps the character and moves on by one.
\<close>

function replaceAll :: "(jsstring \<Rightarrow> nat option) \<Rightarrow> jsstring \<Rightarrow> jsstring" where
  "replaceAll m [] = []"
| "replaceAll m (c # cs) =
     (case m (c # cs) of
        None \<Rightarrow> c # replaceAll m cs
      | Some n \<Rightarrow> if n = 0 then c # replaceAll m cs else replaceAll m (drop (n - 1) cs))"
  by pat_completeness auto
termination
  by (relation "measure (\<lambda>(m, s). length s)") auto

section \<open>utils/security.js\<close>

text \<open>
  \<open>escapeHtml\<close> returns a value that is not a string as it is. For a string,
  \<open>text.replace(/[&<>"']/g, (m) => map[m])\<close>: each of the five characters is replaced
  by its entry of \<open>map\<close>, every other character is kept.
\<close>

definition escapeMap :: "jschar \<Rightarrow> jsstring" where
  "escapeMap c =
     (if c = 38 then js ''&amp;''
      else if c = 60 then js ''&lt;''
      else if c = 62 then js ''&gt;''
      else if c = 34 then js ''&quot;''
      else if c = 39 then js ''&#039;''
      else [c])"

definition escapeReplace :: "jsstring \<Rightarrow> jsstring" where
  "escapeReplace text = concat (map escapeMap text)"

fun escapeHtml :: "jsvalue \<Rightarrow> jsvalue" where
  "escapeHtml (JString text) = JString (escapeReplace text)"
| "escapeHtml text = text"

text \<open>
  \<open>sanitizeInput\<close> too returns a value that is not a string as it is, and applies three
  replacements to a string. The first pattern:
  \<^verbatim>\<open>/<script\b[^<]*(?:(?!<\/script>)<[^<]*)*<\/script>/gi\<close>.
  Behind \<open><script\<close> and the word boundary, \<open>closeScript\<close> walks the rest: a character
  other than \<open><\<close> is consumed by \<open>[^<]*\<close>; at a \<open><\<close> the closing tag either matches,
  which ends the match, or the look-ahead lets the group consume the \<open><\<close>. Backtracking
  finds nothing else: leaving \<open>[^<]*\<close> or the group early puts the closing tag in front
  of a character that is not the start of \<open></script>\<close>.
\<close>

fun closeScript :: "jsstring \<Rightarrow> nat option" where
  "closeScript [] = None"
| "closeScript (c # cs) =
     (if c \<noteq> 60 then map_option Suc (closeScript cs)
      else if ciPrefix (js ''</script>'') (c # cs) then Some 9
      else map_option Suc (closeScript cs))"

definition matchScript :: "jsstring \<Rightarrow> nat option" where
  "matchScript s =
     (if ciPrefix (js ''<script'') s \<and> (case drop 7 s of [] \<Rightarrow> True | c # _ \<Rightarrow> \<not> isWordChar c)
      then map_option (\<lambda>n. 7 + n) (closeScript (drop 7 s))
      else None)"

text \<open>
  Second pattern: \<^verbatim>\<open>/on\w+\s*=\s*["'][^"']*["']/gi\<close>. Every repetition is followed
  by a character outside its class, so the greedy choice is the only one that can match.
  The closing quote need not be the opening one.
\<close>

definition isQuote :: "jschar \<Rightarrow> bool" where
  "isQuote c = (c = 34 \<or> c = 39)"

definition matchHandler :: "jsstring \<Rightarrow> nat option" where
  "matchHandler s =
     (if ciPrefix (js ''on'') s then
        (let r1 = drop 2 s;
             r2 = dropWhile isWordChar r1
         in if takeWhile isWordChar r1 = [] then None
            else (case dropWhile isWhiteSpace r2 of
                    [] \<Rightarrow> None
                  | e # r3 \<Rightarrow>
                      if e \<noteq> 61 then None
                      else (case dropWhile isWhiteSpace r3 of
                              [] \<Rightarrow> None
                            | q # r4 \<Rightarrow>
                                if \<not> isQuote q then None
                                else (case dropWhile (\<lambda>c. \<not> isQuote c) r4 of
                                        [] \<Rightarrow> None
                                      | q' # r5 \<Rightarrow> Some (length s - length r5)))))
      else None)"

text \<open>Third pattern: \<^verbatim>\<open>/javascript:/gi\<close>.\<close>

definition matchJavascript :: "jsstring \<Rightarrow> nat option" where
  "matchJavascript s = (if ciPrefix (js ''javascript:'') s then Some 11 else None)"

definition sanitizeReplace :: "jsstring \<Rightarrow> jsstring" where
  "sanitizeReplace input =
     replaceAll matchJavascript (replaceAll matchHandler (replaceAll matchScript input))"

fun sanitizeInput :: "jsvalue \<Rightarrow> jsvalue" where
  "sanitizeInput (JString input) = JString (sanitizeReplace input)"
| "sanitizeInput input = input"

text \<open>\<open>sanitizeNote\<close>: a falsy note gives the empty string.\<close>

definition sanitizeNote :: "jsvalue \<Rightarrow> jsvalue" where
  "sanitizeNote note = (if \<not> truthy note then JString [] else escapeHtml (sanitizeInput note))"

section \<open>middleware/validation.js\<close>

text \<open>
  The chains are built from the validators and sanitizers of express-validator, which
  hand a field to validator.js as a string. A request body is modelled by the fields the
  chains read.

  \<open>trim()\<close> removes white space at both ends.
\<close>

definition trim :: "jsstring \<Rightarrow> jsstring" where
  "trim s = rev (dropWhile isWhiteSpace (rev (dropWhile isWhiteSpace s)))"

text \<open>
  \<open>isLength\<close> of validator.js does not count code units: from \<open>str.length\<close> it takes
  the number of variation selectors U+FE0E and U+FE0F and the number of surrogate pairs
  (the matches of \<^verbatim>\<open>/[\uD800-\uDBFF][\uDC00-\uDFFF]/g\<close>, found from left to right).
  A missing \<open>min\<close> is 0.
\<close>

definition presentationSequences :: "jsstring \<Rightarrow> nat" where
  "presentationSequences str = length (filter (\<lambda>c. c = 65039 \<or> c = 65038) str)"

fun surrogatePairs :: "jsstring \<Rightarrow> nat" where
  "surrogatePairs (a # b # cs) =
     (if 55296 \<le> a \<and> a \<le> 56319 \<and> 56320 \<le> b \<and> b \<le> 57343
      then Suc (surrogatePairs cs) else surrogatePairs (b # cs))"
| "surrogatePairs [a] = 0"
| "surrogatePairs [] = 0"

definition validatorLen :: "jsstring \<Rightarrow> nat" where
  "validatorLen str = length str - presentationSequences str - surrogatePairs str"

definition isLength :: "nat \<Rightarrow> nat \<Rightarrow> jsstring \<Rightarrow> bool" where
  "isLength lo hi str = (lo \<le> validatorLen str \<and> validatorLen str \<le> hi)"

text \<open>\<^verbatim>\<open>.matches(/^[a-zA-Z0-9\s\-_]+$/)\<close>: at least one character, all of the class.\<close>

definition nameChar :: "jschar \<Rightarrow> bool" where
  "nameChar c = ((97 \<le> c \<and> c \<le> 122) \<or> (65 \<le> c \<and> c \<le> 90) \<or> (48 \<le> c \<and> c \<le> 57)
      \<or> isWhiteSpace c \<or> c = 45 \<or> c = 95)"

definition matchesName :: "jsstring \<Rightarrow> bool" where
  "matchesName str = (str \<noteq> [] \<and> list_all nameChar str)"

text \<open>An entry of \<open>errors.array()\<close>: the field and the message of the failed validator.\<close>

type_synonym validation_error = "string \<times> string"

record item_body =
  body_name :: jsvalue
  body_note :: jsvalue

text \<open>
  \<open>handleValidationErrors\<close>: with an error collected the request is answered with 400,
  the message \<open>Validation failed\<close> and the errors; without, \<open>next()\<close> is called.
  The response type is declared here, for all routes.
\<close>

type_synonym item_columns = "int \<times> jsstring \<times> jsstring \<times> nat \<times> nat"
type_synonym user_columns = "int \<times> jsstring \<times> jsstring \<times> nat"

datatype response_body =
    Items "item_columns list"
  | Item item_columns
  | User user_columns
  | Message string
  | Error string
  | ValidationFailed "validation_error list"

type_synonym response = "nat \<times> response_body"

definition handleValidationErrors :: "validation_error list \<Rightarrow> response option" where
  "handleValidationErrors errors =
     (if errors \<noteq> [] then Some (400, ValidationFailed errors) else None)"

text \<open>
  \<open>validateVaultItem\<close>. Every validator of a chain runs on the value as the sanitizers
  before it left it, and every failure is collected. The sanitizers write their result
  back into the request, so the handler reads the trimmed fields. A field that is absent
  reaches the validators of a chain without \<open>optional()\<close> as the empty string; a chain
  with \<open>optional()\<close> leaves an absent field alone. \<open>handleValidationErrors\<close> ends the
  chain: \<open>Inl\<close> is its response, \<open>Inr\<close> the request as passed on by \<open>next()\<close>.

  What express-validator makes of a field that is neither a string nor absent (a number,
  \<open>null\<close>, an array, an object) is decided inside the library, which is not part of the
  repository. It is the parameter \<open>chain\<close>: for the name of the field and its value, the
  value written back into the request and the errors collected.
\<close>

definition nameErrors :: "jsstring \<Rightarrow> validation_error list" where
  "nameErrors name =
     (if isLength 1 255 name then [] else [(''name'', ''Name must be between 1 and 255 characters'')]) @
     (if matchesName name then []
      else [(''name'', ''Name can only contain letters, numbers, spaces, hyphens, and underscores'')])"

definition noteErrors :: "jsstring option \<Rightarrow> validation_error list" where
  "noteErrors note =
     (case note of
        None \<Rightarrow> []
      | Some n \<Rightarrow> if isLength 0 5000 n then [] else [(''note'', ''Note must be at most 5000 characters'')])"

type_synonym field_chain = "string \<Rightarrow> jsvalue \<Rightarrow> jsvalue \<times> validation_error list"

fun nameChain :: "field_chain \<Rightarrow> jsvalue \<Rightarrow> jsvalue \<times> validation_error list" where
  "nameChain chain (JString s) = (JString (trim s), nameErrors (trim s))"
| "nameChain chain JUndefined = (JString (trim []), nameErrors (trim []))"
| "nameChain chain v = chain ''name'' v"

fun noteChain :: "field_chain \<Rightarrow> jsvalue \<Rightarrow> jsvalue \<times> validation_error list" where
  "noteChain chain (JString s) = (JString (trim s), noteErrors (Some (trim s)))"
| "noteChain chain JUndefined = (JUndefined, noteErrors None)"
| "noteChain chain v = chain ''note'' v"

definition validateVaultItem :: "field_chain \<Rightarrow> item_body \<Rightarrow> response + item_body" where
  "validateVaultItem chain b =
     (let name = nameChain chain (body_name b);
          note = noteChain chain (body_note b);
          errors = snd name @ snd note
      in case handleValidationErrors errors of
           Some res \<Rightarrow> Inl res
         | None \<Rightarrow> Inr \<lparr>body_name = fst name, body_note = fst note\<rparr>)"

text \<open>\<open>validateSearch\<close>: the query is optional, trimmed, and at most 100 long.\<close>

definition validateSearch :: "jsstring option \<Rightarrow> response + jsstring option" where
  "validateSearch query =
     (let q = map_option trim query;
          errors = (case q of
                      None \<Rightarrow> []
                    | Some s \<Rightarrow> if isLength 0 100 s then []
                                else [(''query'', ''Search query must be at most 100 characters'')])
      in case handleValidationErrors errors of Some res \<Rightarrow> Inl res | None \<Rightarrow> Inr q)"

record user_update_body =
  body_email :: "jsstring option"
  body_role :: "jsstring option"

text \<open>
  \<open>validateUserUpdate\<close>. \<open>isEmail\<close> and \<open>normalizeEmail\<close> are validator.js functions
  that no claim depends on; they are parameters. \<open>normalizeEmail\<close> stands for the string
  the following \<open>isLength\<close> sees.
\<close>

definition validateUserUpdate ::
  "(jsstring \<Rightarrow> bool) \<Rightarrow> (jsstring \<Rightarrow> jsstring) \<Rightarrow> user_update_body
     \<Rightarrow> response + user_update_body" where
  "validateUserUpdate isEmail normalizeEmail b =
     (let email = map_option normalizeEmail (body_email b);
          e1 = (case body_email b of
                  None \<Rightarrow> []
                | Some e \<Rightarrow> if isEmail e then [] else [(''email'', ''Must be a valid email address'')]);
          e2 = (case email of
                  None \<Rightarrow> []
                | Some e \<Rightarrow> if isLength 0 255 e then []
                            else [(''email'', ''Email must be at most 255 characters'')]);
          e3 = (case body_role b of
                  None \<Rightarrow> []
                | Some r \<Rightarrow> if r = js ''admin'' \<or> r = js ''user'' \<or> r = js ''auditor'' then []
                            else [(''role'', ''Role must be one of: admin, user, auditor'')]);
          errors = e1 @ e2 @ e3
      in case handleValidationErrors errors of
           Some res \<Rightarrow> Inl res
         | None \<Rightarrow> Inr \<lparr>body_email = email, body_role = body_role b\<rparr>)"

section \<open>The tables of database/setup.js\<close>

text \<open>
  \<open>pool.query\<close> is modelled by its effect on the two tables, held as lists of rows.
  A statement that reaches the database is carried out; faults of the storage engine, the
  only way into the \<open>catch\<close> branches with their status 500, are outside the model
  (the violated \<open>UNIQUE\<close> constraint that \<open>PUT /api/users/:id\<close> answers itself is
  inside). \<open>SERIAL\<close> keys are integers, \<open>TIMESTAMP\<close>s are counted by \<open>clock\<close>, the
  value of \<open>CURRENT_TIMESTAMP\<close>.

  A string handed to \<open>pool.query\<close> as a parameter is stored as it is. The text the
  driver writes for a parameter that is not a string is the driver's business and the
  parameter \<open>driver\<close>.
\<close>

fun paramText :: "(jsvalue \<Rightarrow> jsstring) \<Rightarrow> jsvalue \<Rightarrow> jsstring" where
  "paramText driver (JString s) = s"
| "paramText driver v = driver v"

record vault_item =
  item_id :: int
  owner_id :: int
  item_name :: jsstring
  item_note :: jsstring
  item_created_at :: nat
  item_updated_at :: nat

record user_row =
  user_id :: int
  user_email :: jsstring
  password_hash :: jsstring
  user_role :: jsstring
  user_created_at :: nat

record database =
  vault_items :: "vault_item list"
  users :: "user_row list"
  vault_items_id_seq :: int
  clock :: nat

text \<open>
  The columns the statements select or return:
  \<open>id, name, note, created_at, updated_at\<close> of an item and
  \<open>id, email, role, created_at\<close> of a user.
\<close>

definition itemColumns :: "vault_item \<Rightarrow> item_columns" where
  "itemColumns r = (item_id r, item_name r, item_note r, item_created_at r, item_updated_at r)"

definition userColumns :: "user_row \<Rightarrow> user_columns" where
  "userColumns u = (user_id u, user_email u, user_role u, user_created_at u)"

section \<open>Requests\<close>

text \<open>
  \<open>req.user\<close>, as \<open>requireAuth\<close> leaves it: the id of the principal, the number
  the \<open>users\<close> table holds, and the role.
\<close>

record principal =
  principal_id :: int
  principal_role :: jsstring

text \<open>
  \<open>parseInt(str, 10)\<close>: leading white space is skipped, one sign is read, then the
  longest run of decimal digits; without a digit the result is \<open>NaN\<close>, here \<open>None\<close>.
  Whatever follows the digits is ignored. The value is the exact integer; JavaScript
  rounds it from \<open>2^53\<close> on, far beyond any \<open>SERIAL\<close> key.
\<close>

definition parseInt :: "jsstring \<Rightarrow> int option" where
  "parseInt str =
     (let s = dropWhile isWhiteSpace str;
          negative = (case s of [] \<Rightarrow> False | c # _ \<Rightarrow> c = 45);
          s' = (case s of [] \<Rightarrow> [] | c # cs \<Rightarrow> if c = 43 \<or> c = 45 then cs else c # cs);
          z = takeWhile isDigit s'
      in if z = [] then None
         else Some ((if negative then - 1 else 1) * foldl (\<lambda>a c. 10 * a + (int c - 48)) 0 z))"

text \<open>
  Modelled from the spec: \<open>requireRole\<close> of middleware/auth.js, which is not among the
  sources. ``\<open>requireRole(expected)\<close> -- permitted iff \<open>principal.role == expected\<close>.
  Failure yields \<open>Forbidden\<close> with message "Access denied".''
\<close>

definition requireRole :: "jsstring \<Rightarrow> principal \<Rightarrow> response option" where
  "requireRole expected user =
     (if principal_role user = expected then None else Some (403, Error ''Access denied''))"

text \<open>\<open>ORDER BY created_at DESC\<close>.\<close>

definition orderByCreatedDesc :: "vault_item list \<Rightarrow> vault_item list" where
  "orderByCreatedDesc rows = rev (sort_key item_created_at rows)"

section \<open>routes/vault.js\<close>

text \<open>
  Every route of the file lies behind \<open>requireAuth\<close>; the handlers below take the
  principal it resolved. A handler that writes returns the tables as it leaves them.

  \<open>POST /search\<close>. What \<open>ILIKE\<close> matches is the database's business and a parameter
  here: \<open>ilike text pattern\<close>.
\<close>

definition vault_post_search ::
  "(jsstring \<Rightarrow> jsstring \<Rightarrow> bool) \<Rightarrow> principal \<Rightarrow> jsstring option \<Rightarrow> database \<Rightarrow> response" where
  "vault_post_search ilike user query d =
     (case validateSearch query of
        Inl res \<Rightarrow> res
      | Inr q \<Rightarrow>
          (case q of
             None \<Rightarrow> (200, Items [])
           | Some s \<Rightarrow>
               if s = [] \<or> trim s = [] then (200, Items [])
               else (let searchPattern = 37 # trim s @ [37];
                         rows = filter (\<lambda>r. owner_id r = principal_id user \<and>
                                    (ilike (item_name r) searchPattern \<or> ilike (item_note r) searchPattern))
                                  (vault_items d)
                     in (200, Items (map itemColumns (orderByCreatedDesc rows))))))"

text \<open>\<open>GET /:id\<close>.\<close>

definition vault_get_item :: "principal \<Rightarrow> jsstring \<Rightarrow> database \<Rightarrow> response" where
  "vault_get_item user idParam d =
     (case parseInt idParam of
        None \<Rightarrow> (400, Error ''Invalid item ID'')
      | Some itemId \<Rightarrow>
          (case filter (\<lambda>r. item_id r = itemId \<and> owner_id r = principal_id user) (vault_items d) of
             [] \<Rightarrow> (404, Error ''Vault item not found'')
           | r # _ \<Rightarrow> (200, Item (itemColumns r))))"


text \<open>\<open>PUT /:id\<close>.\<close>

definition vault_put_item ::
  "field_chain \<Rightarrow> (jsvalue \<Rightarrow> jsstring) \<Rightarrow> principal \<Rightarrow> jsstring \<Rightarrow> item_body \<Rightarrow> database
     \<Rightarrow> response \<times> database" where
  "vault_put_item chain driver user idParam body d =
     (case validateVaultItem chain body of
        Inl res \<Rightarrow> (res, d)
      | Inr b \<Rightarrow>
          (case parseInt idParam of
             None \<Rightarrow> ((400, Error ''Invalid item ID''), d)
           | Some itemId \<Rightarrow>
               (let sanitizedNote = sanitizeNote (if truthy (body_note b) then body_note b else JString [])
                in case body_name b of
                     JString name \<Rightarrow>
                       (let hit = (\<lambda>r. item_id r = itemId \<and> owner_id r = principal_id user);
                            upd = (\<lambda>r. r\<lparr>item_name := trim name,
                                           item_note := paramText driver sanitizedNote,
                                           item_updated_at := clock d\<rparr>);
                            d' = d\<lparr>vault_items := map (\<lambda>r. if hit r then upd r else r) (vault_items d)\<rparr>
                        in case filter hit (vault_items d) of
                             [] \<Rightarrow> ((404, Error ''Vault item not found''), d')
                           | r # _ \<Rightarrow> ((200, Item (itemColumns (upd r))), d'))
                   | _ \<Rightarrow> ((500, Error ''Internal server error''), d))))"

text \<open>\<open>DELETE /:id\<close> (``user can delete own, admin can delete any'').\<close>

definition vault_delete_item :: "principal \<Rightarrow> jsstring \<Rightarrow> database \<Rightarrow> response \<times> database" where
  "vault_delete_item user idParam d =
     (case parseInt idParam of
        None \<Rightarrow> ((400, Error ''Invalid item ID''), d)
      | Some itemId \<Rightarrow>
          (let hit = (\<lambda>r. if principal_role user = js ''admin'' then item_id r = itemId
                          else item_id r = itemId \<and> owner_id r = principal_id user);
               d' = d\<lparr>vault_items := filter (\<lambda>r. \<not> hit r) (vault_items d)\<rparr>
           in if filter hit (vault_items d) = [] then ((404, Error ''Vault item not found''), d')
              else ((200, Message ''Vault item deleted successfully''), d')))"

section \<open>routes/users.js\<close>

text \<open>
  Every route of the file lies behind \<open>requireAuth\<close> and \<open>requireRole('admin')\<close>.

  \<open>GET /:id\<close>.
\<close>

definition users_get_user :: "principal \<Rightarrow> jsstring \<Rightarrow> database \<Rightarrow> response" where
  "users_get_user user idParam d =
     (case requireRole (js ''admin'') user of
        Some denied \<Rightarrow> denied
      | None \<Rightarrow>
          (case parseInt idParam of
             None \<Rightarrow> (400, Error ''Invalid user ID'')
           | Some userId \<Rightarrow>
               (case filter (\<lambda>u. user_id u = userId) (users d) of
                  [] \<Rightarrow> (404, Error ''User not found'')
                | u # _ \<Rightarrow> (200, User (userColumns u)))))"

text \<open>
  \<open>PUT /:id\<close>. A field is part of the \<open>UPDATE\<close> when it is truthy, that is present and
  not empty. The statement fails on the \<open>UNIQUE\<close> constraint of \<open>email\<close> (error 23505)
  when it would give the row an address that another row holds.
\<close>

definition users_put_user ::
  "(jsstring \<Rightarrow> bool) \<Rightarrow> (jsstring \<Rightarrow> jsstring) \<Rightarrow> principal \<Rightarrow> jsstring \<Rightarrow> user_update_body
     \<Rightarrow> database \<Rightarrow> response \<times> database" where
  "users_put_user isEmail normalizeEmail user idParam body d =
     (case requireRole (js ''admin'') user of
        Some denied \<Rightarrow> (denied, d)
      | None \<Rightarrow>
          (case validateUserUpdate isEmail normalizeEmail body of
             Inl res \<Rightarrow> (res, d)
           | Inr b \<Rightarrow>
               (case parseInt idParam of
                  None \<Rightarrow> ((400, Error ''Invalid user ID''), d)
                | Some userId \<Rightarrow>
                    (let email = (case body_email b of None \<Rightarrow> [] | Some e \<Rightarrow> e);
                         role = (case body_role b of None \<Rightarrow> [] | Some r \<Rightarrow> r);
                         hit = (\<lambda>u. user_id u = userId);
                         upd = (\<lambda>u. u\<lparr>user_email := (if email = [] then user_email u else email),
                                        user_role := (if role = [] then user_role u else role)\<rparr>)
                     in if email = [] \<and> role = [] then ((400, Error ''No fields to update''), d)
                        else if email \<noteq> [] \<and> list_ex hit (users d) \<and>
                                list_ex (\<lambda>u. \<not> hit u \<and> user_email u = email) (users d)
                        then ((400, Error ''Email already exists''), d)
                        else (case filter hit (users d) of
                                [] \<Rightarrow> ((404, Error ''User not found''), d)
                              | u # _ \<Rightarrow>
                                  ((200, User (userColumns (upd u))),
                                   d\<lparr>users := map (\<lambda>u. if hit u then upd u else u) (users d)\<rparr>))))))"

text \<open>
  \<open>DELETE /:id\<close>. The items of a deleted account go with it
  (\<open>owner_id ... REFERENCES users(id) ON DELETE CASCADE\<close>).
\<close>

definition users_delete_user :: "principal \<Rightarrow> jsstring \<Rightarrow> database \<Rightarrow> response \<times> database" where
  "users_delete_user user idParam d =
     (case requireRole (js ''admin'') user of
        Some denied \<Rightarrow> (denied, d)
      | None \<Rightarrow>
          (case parseInt idParam of
             None \<Rightarrow> ((400, Error ''Invalid user ID''), d)
           | Some userId \<Rightarrow>
               if userId = principal_id user then ((400, Error ''Cannot delete your own account''), d)
               else if filter (\<lambda>u. user_id u = userId) (users d) = []
               then ((404, Error ''User not found''), d)
               else ((200, Message ''User deleted successfully''),
                     d\<lparr>users := filter (\<lambda>u. user_id u \<noteq> userId) (users d),
                       vault_items := filter (\<lambda>r. owner_id r \<noteq> userId) (vault_items d)\<rparr>)))"

section \<open>Notions used in the statements\<close>



subsection \<open>The stripping and the encoding, in words of the text alone\<close>







section \<open>Example data\<close>

text \<open>
  The tables after \<open>setup.js\<close> and some use: an administrator, two users, two items of
  the first user and one of the second.
\<close>

definition exampleItems :: "vault_item list" where
  "exampleItems =
     [\<lparr>item_id = 7, owner_id = 2, item_name = js ''Item 1'', item_note = js ''Note 1'',
        item_created_at = 10, item_updated_at = 10\<rparr>,
      \<lparr>item_id = 8, owner_id = 2, item_name = js ''Item 2'', item_note = js ''Note 2'',
        item_created_at = 11, item_updated_at = 11\<rparr>,
      \<lparr>item_id = 9, owner_id = 3, item_name = js ''Other'', item_note = js ''Secret'',
        item_created_at = 12, item_updated_at = 12\<rparr>]"

definition exampleUsers :: "user_row list" where
  "exampleUsers =
     [\<lparr>user_id = 1, user_email = js ''admin@safevault.com'', password_hash = js ''h1'',
        user_role = js ''admin'', user_created_at = 1\<rparr>,
      \<lparr>user_id = 2, user_email = js ''user@test.com'', password_hash = js ''h2'',
        user_role = js ''user'', user_created_at = 2\<rparr>,
      \<lparr>user_id = 3, user_email = js ''other@test.com'', password_hash = js ''h3'',
        user_role = js ''user'', user_created_at = 3\<rparr>]"

definition exampleDb :: database where
  "exampleDb = \<lparr>vault_items = exampleItems, users = exampleUsers, vault_items_id_seq = 10, clock = 20\<rparr>"

definition adminPrincipal :: principal where
  "adminPrincipal = \<lparr>principal_id = 1, principal_role = js ''admin''\<rparr>"

definition userPrincipal :: principal where
  "userPrincipal = \<lparr>principal_id = 2, principal_role = js ''user''\<rparr>"


text \<open>
  A library that hands every other value on without an error, and a driver that writes
  nothing for it. The example requests hold strings only and reach neither.
\<close>

definition exampleChain :: field_chain where
  "exampleChain field v = (v, [])"

definition exampleDriver :: "jsvalue \<Rightarrow> jsstring" where
  "exampleDriver v = []"

section \<open>The patterns and the text they match\<close>

text \<open>
  Each matcher of the code finds at the front of a text exactly the segments of its class
  (\<open>spec_scriptBlock\<close>, \<open>spec_handlerAssignment\<close>, \<open>spec_javascriptToken\<close>), and at most
  one of them; so a global replacement removes what \<open>spec_removed\<close> says.
\<close>

subsection \<open>The closing tag\<close>







subsection \<open>Script blocks and the token\<close>






subsection \<open>Event-handler assignments\<close>










subsection \<open>Global replacement\<close>





section \<open>The sanitization pipeline\<close>

subsection \<open>What each stage leaves alone\<close>

lemma sanitizeNote_string:
  "sanitizeNote (JString s) = JString (escapeReplace (sanitizeReplace s))"
  by (simp add: sanitizeNote_def sanitizeReplace_def escapeReplace_def)

lemma sanitizeNote_other:
  "\<forall>s. v \<noteq> JString s \<Longrightarrow> sanitizeNote v = (if truthy v then v else JString [])"
  by (cases v) (simp_all add: sanitizeNote_def)














subsection \<open>Applying the pipeline twice\<close>


text \<open>
  Nor is the stripping stage alone: a removal can join the pieces of a token that the
  second pass then removes.
\<close>

lemma javascript_token_joined:
  "sanitizeNote (JString (js ''javajavascript:script:'')) = JString (js ''javascript:'')
   \<and> sanitizeNote (JString (js ''javascript:'')) = JString []"
proof -
  have "escapeReplace (sanitizeReplace (js ''javajavascript:script:'')) = js ''javascript:''"
    by code_simp
  moreover have "escapeReplace (sanitizeReplace (js ''javascript:'')) = []"
    by code_simp
  ultimately show ?thesis
    by (simp add: sanitizeNote_string)
qed



subsection \<open>The two stages\<close>




section \<open>The validation chains\<close>

subsection \<open>Lengths as the validator counts them\<close>

lemma surrogatePairs_none:
  "\<forall>c \<in> set s. \<not> (55296 \<le> c \<and> c \<le> 56319) \<Longrightarrow> surrogatePairs s = 0"
  by (induction s rule: surrogatePairs.induct) auto

lemma presentationSequences_none:
  "\<forall>c \<in> set s. c \<noteq> 65039 \<and> c \<noteq> 65038 \<Longrightarrow> presentationSequences s = 0"
  by (induction s) (auto simp: presentationSequences_def)

lemma nameChar_plain:
  "nameChar c \<Longrightarrow> c \<noteq> 65039 \<and> c \<noteq> 65038 \<and> \<not> (55296 \<le> c \<and> c \<le> 56319)"
  by (auto simp: nameChar_def isWhiteSpace_def)

lemma validatorLen_name: "list_all nameChar s \<Longrightarrow> validatorLen s = length s"
  using nameChar_plain
  by (simp add: validatorLen_def surrogatePairs_none presentationSequences_none list_all_iff)

lemma validatorLen_plain: "\<forall>c \<in> set s. c < 55296 \<Longrightarrow> validatorLen s = length s"
proof -
  assume a: "\<forall>c \<in> set s. c < 55296"
  then have "\<forall>c \<in> set s. \<not> (55296 \<le> c \<and> c \<le> 56319)"
    and "\<forall>c \<in> set s. c \<noteq> 65039 \<and> c \<noteq> 65038"
    by auto
  then show ?thesis
    by (simp add: validatorLen_def surrogatePairs_none presentationSequences_none)
qed

lemma validatorLen_le: "validatorLen s \<le> length s"
  by (simp add: validatorLen_def)

lemma validatorLen_Nil: "validatorLen [] = 0"
  by (simp add: validatorLen_def)

lemma trim_replicate: "\<not> isWhiteSpace c \<Longrightarrow> trim (replicate n c) = replicate n c"
  by (simp add: trim_def)

lemma validatorLen_a: "validatorLen (trim (replicate n 97)) = n"
proof -
  have a: "\<not> isWhiteSpace 97"
    by (simp add: isWhiteSpace_def)
  have "list_all nameChar (replicate n 97)"
    by (simp add: list_all_iff nameChar_def)
  then show ?thesis
    unfolding trim_replicate [OF a] by (simp add: validatorLen_name)
qed

subsection \<open>The name of an item\<close>

lemma nameErrors_Nil:
  "nameErrors n = [] \<longleftrightarrow> 1 \<le> length n \<and> length n \<le> 255 \<and> list_all nameChar n"
proof
  assume "nameErrors n = []"
  then have l: "isLength 1 255 n" and m: "matchesName n"
    by (auto simp: nameErrors_def split: if_splits)
  from m have "list_all nameChar n"
    by (simp add: matchesName_def)
  with l validatorLen_name [of n] show "1 \<le> length n \<and> length n \<le> 255 \<and> list_all nameChar n"
    by (simp add: isLength_def)
next
  assume a: "1 \<le> length n \<and> length n \<le> 255 \<and> list_all nameChar n"
  then have "validatorLen n = length n"
    by (simp add: validatorLen_name)
  with a have "isLength 1 255 n" and "matchesName n"
    by (auto simp: isLength_def matchesName_def)
  then show "nameErrors n = []"
    by (simp add: nameErrors_def)
qed




lemma validateVaultItem_Inl: "validateVaultItem chain body = Inl res \<Longrightarrow> fst res = 400"
  by (auto simp: validateVaultItem_def handleValidationErrors_def Let_def split: if_splits)




subsection \<open>The search query\<close>

lemma validateSearch_long:
  "100 < validatorLen (trim q) \<Longrightarrow>
     validateSearch (Some q) =
       Inl (400, ValidationFailed [(''query'', ''Search query must be at most 100 characters'')])"
  by (simp add: validateSearch_def handleValidationErrors_def isLength_def Let_def)

text \<open>
  Claim C10: a search whose trimmed query is longer than 100 characters is answered with
  400 and the validation failure of the field \<open>query\<close>. The length is the one
  \<open>isLength\<close> counts, which for text without surrogate pairs and variation selectors
  is the number of code units (\<open>validatorLen_plain\<close>).
\<close>

theorem search_query_bound:
  assumes "100 < validatorLen (trim q)"
  shows "vault_post_search ilike user (Some q) d =
           (400, ValidationFailed [(''query'', ''Search query must be at most 100 characters'')])"
  using validateSearch_long [OF assms] by (simp add: vault_post_search_def)

text \<open>
  At a query of 101 letters \<open>a\<close>: the search is rejected, while the same text passes
  as a name and as a note.
\<close>

theorem search_query_bound_witness:
  "100 < validatorLen (trim (replicate 101 97))
   \<and> vault_post_search (\<lambda>t p. True) userPrincipal (Some (replicate 101 97)) exampleDb =
       (400, ValidationFailed [(''query'', ''Search query must be at most 100 characters'')])
   \<and> nameErrors (trim (replicate 101 97)) = []
   \<and> noteErrors (Some (trim (replicate 101 97))) = []"
proof -
  have h: "100 < validatorLen (trim (replicate 101 97))"
    unfolding validatorLen_a by simp
  have a: "\<not> isWhiteSpace 97"
    by (simp add: isWhiteSpace_def)
  have n: "nameErrors (trim (replicate 101 97)) = []"
    unfolding trim_replicate [OF a] nameErrors_Nil by (simp add: list_all_iff nameChar_def)
  have "noteErrors (Some (trim (replicate 101 97))) = []"
    by (simp add: noteErrors_def isLength_def validatorLen_a)
  with h n search_query_bound [OF h] show ?thesis by blast
qed

section \<open>The vault routes\<close>

subsection \<open>Search\<close>

lemma orderByCreatedDesc_set: "set (orderByCreatedDesc rows) = set rows"
  by (simp add: orderByCreatedDesc_def)

lemma orderByCreatedDesc_length: "length (orderByCreatedDesc rows) = length rows"
  by (simp add: orderByCreatedDesc_def)

lemma search_empty:
  "(case query of None \<Rightarrow> True | Some q \<Rightarrow> trim q = []) \<Longrightarrow>
     vault_post_search ilike user query d = (200, Items [])"
  by (cases query)
    (simp_all add: vault_post_search_def validateSearch_def handleValidationErrors_def isLength_def
      validatorLen_Nil)

lemma search_result:
  "vault_post_search ilike user query d = (st, Items xs) \<Longrightarrow>
     \<exists>rows. xs = map itemColumns rows
       \<and> set rows \<subseteq> {r \<in> set (vault_items d). owner_id r = principal_id user}
       \<and> length rows \<le> length (filter (\<lambda>r. owner_id r = principal_id user) (vault_items d))"
proof -
  assume a: "vault_post_search ilike user query d = (st, Items xs)"
  show ?thesis
  proof (cases "validateSearch query")
    case (Inl res)
    then have "\<exists>errors. res = (400, ValidationFailed errors)"
      by (auto simp: validateSearch_def handleValidationErrors_def Let_def split: option.splits if_splits)
    with a Inl show ?thesis
      by (auto simp: vault_post_search_def)
  next
    case (Inr q)
    show ?thesis
    proof (cases "q = None \<or> q = Some [] \<or> (\<exists>s. q = Some s \<and> trim s = [])")
      case True
      with a Inr have "xs = []"
        by (auto simp: vault_post_search_def)
      then show ?thesis by simp
    next
      case False
      then obtain s where s: "q = Some s" "s \<noteq> []" "trim s \<noteq> []"
        by (cases q) auto
      define match :: "vault_item \<Rightarrow> bool" where "match = (\<lambda>r. ilike (item_name r) (37 # trim s @ [37]) \<or> ilike (item_note r) (37 # trim s @ [37]))"
      define own :: "vault_item \<Rightarrow> bool" where "own = (\<lambda>r. owner_id r = principal_id user)"
      have f: "filter (\<lambda>r. own r \<and> match r) (vault_items d) = filter match (filter own (vault_items d))"
        by (simp add: conj_commute)
      from a Inr s have "xs = map itemColumns (orderByCreatedDesc (filter (\<lambda>r. own r \<and> match r) (vault_items d)))"
        by (simp add: vault_post_search_def Let_def match_def own_def)
      moreover have "set (orderByCreatedDesc (filter (\<lambda>r. own r \<and> match r) (vault_items d))) \<subseteq> {r \<in> set (vault_items d). own r}"
        by (auto simp: orderByCreatedDesc_set)
      moreover have "length (orderByCreatedDesc (filter (\<lambda>r. own r \<and> match r) (vault_items d))) \<le> length (filter own (vault_items d))"
        unfolding orderByCreatedDesc_length f by (rule length_filter_le)
      ultimately show ?thesis
        unfolding own_def by blast
    qed
  qed
qed

lemma search_accepts:
  "validatorLen (trim q) \<le> 100 \<Longrightarrow> \<exists>xs. vault_post_search ilike user (Some q) d = (200, Items xs)"
  by (simp add: vault_post_search_def validateSearch_def handleValidationErrors_def isLength_def Let_def)

text \<open>
  Claim C6: a search without a query, or with one that is empty or white space only, is
  answered with 200 and no item; whatever the query and whatever \<open>ILIKE\<close> matches,
  every item returned is a row of the requesting principal; and the query
  \<open>' OR 1=1 --\<close> of a principal who owns exactly two items is answered with 200 and at
  most two items.
\<close>

theorem search_scoped:
  "((case query of None \<Rightarrow> True | Some q \<Rightarrow> trim q = []) \<longrightarrow>
      vault_post_search ilike user query d = (200, Items []))
   \<and> (\<forall>st xs. vault_post_search ilike user query d = (st, Items xs) \<longrightarrow>
         set xs \<subseteq> itemColumns ` {r \<in> set (vault_items d). owner_id r = principal_id user})
   \<and> (length (filter (\<lambda>r. owner_id r = principal_id user) (vault_items d)) = 2 \<longrightarrow>
         (\<exists>xs. vault_post_search ilike user (Some (js ''' OR 1=1 --'')) d = (200, Items xs)
               \<and> length xs \<le> 2))"
proof (intro conjI impI allI)
  assume "case query of None \<Rightarrow> True | Some q \<Rightarrow> trim q = []"
  then show "vault_post_search ilike user query d = (200, Items [])"
    by (rule search_empty)
next
  fix st xs
  assume "vault_post_search ilike user query d = (st, Items xs)"
  from search_result [OF this] obtain rows where
    "xs = map itemColumns rows"
    "set rows \<subseteq> {r \<in> set (vault_items d). owner_id r = principal_id user}"
    by blast
  then show "set xs \<subseteq> itemColumns ` {r \<in> set (vault_items d). owner_id r = principal_id user}"
    by (simp add: image_mono)
next
  assume two: "length (filter (\<lambda>r. owner_id r = principal_id user) (vault_items d)) = 2"
  have "validatorLen (trim (js ''' OR 1=1 --'')) \<le> length (trim (js ''' OR 1=1 --''))"
    by (rule validatorLen_le)
  also have "\<dots> \<le> 100"
    by (simp add: trim_def js_def isWhiteSpace_def)
  finally obtain xs where r: "vault_post_search ilike user (Some (js ''' OR 1=1 --'')) d = (200, Items xs)"
    using search_accepts by blast
  from search_result [OF r] two have "length xs \<le> 2"
    by auto
  with r show "\<exists>xs. vault_post_search ilike user (Some (js ''' OR 1=1 --'')) d = (200, Items xs)
               \<and> length xs \<le> 2"
    by blast
qed

text \<open>
  With a matcher that accepts every row, the second user's item still stays out: the
  first user searches with a blank query, with \<open>Item\<close> and with the injection probe.
\<close>

theorem search_scoped_witness:
  "vault_post_search (\<lambda>t p. True) userPrincipal (Some (js ''   '')) exampleDb = (200, Items [])
   \<and> vault_post_search (\<lambda>t p. True) userPrincipal (Some (js ''Item'')) exampleDb =
       (200, Items [(8, js ''Item 2'', js ''Note 2'', 11, 11), (7, js ''Item 1'', js ''Note 1'', 10, 10)])
   \<and> set [(8, js ''Item 2'', js ''Note 2'', 11, 11), (7, js ''Item 1'', js ''Note 1'', 10, 10)]
       \<subseteq> itemColumns ` {r \<in> set (vault_items exampleDb). owner_id r = principal_id userPrincipal}
   \<and> length (filter (\<lambda>r. owner_id r = principal_id userPrincipal) (vault_items exampleDb)) = 2
   \<and> (\<exists>xs. vault_post_search (\<lambda>t p. True) userPrincipal (Some (js ''' OR 1=1 --'')) exampleDb = (200, Items xs)
          \<and> length xs \<le> 2)"
proof -
  have h1: "case Some (js ''   '') of None \<Rightarrow> True | Some q \<Rightarrow> trim q = []"
    by (simp add: trim_def js_def isWhiteSpace_def)
  have h2: "vault_post_search (\<lambda>t p. True) userPrincipal (Some (js ''Item'')) exampleDb =
       (200, Items [(8, js ''Item 2'', js ''Note 2'', 11, 11), (7, js ''Item 1'', js ''Note 1'', 10, 10)])"
    by (simp add: vault_post_search_def validateSearch_def handleValidationErrors_def isLength_def
        validatorLen_def presentationSequences_def trim_def js_def isWhiteSpace_def exampleDb_def exampleItems_def
        userPrincipal_def orderByCreatedDesc_def itemColumns_def Let_def)
  have h3: "length (filter (\<lambda>r. owner_id r = principal_id userPrincipal) (vault_items exampleDb)) = 2"
    by (simp add: exampleDb_def exampleItems_def userPrincipal_def)
  note a = search_scoped [where query = "Some (js ''   '')" and ilike = "\<lambda>t p. True"
      and user = userPrincipal and d = exampleDb]
  note b = search_scoped [where query = "Some (js ''Item'')" and ilike = "\<lambda>t p. True"
      and user = userPrincipal and d = exampleDb]
  from a h1 have c1: "vault_post_search (\<lambda>t p. True) userPrincipal (Some (js ''   '')) exampleDb = (200, Items [])"
    by blast
  from b h2 have c2: "set [(8, js ''Item 2'', js ''Note 2'', 11, 11), (7, js ''Item 1'', js ''Note 1'', 10, 10)]
       \<subseteq> itemColumns ` {r \<in> set (vault_items exampleDb). owner_id r = principal_id userPrincipal}"
    by blast
  from b h3 have c3: "\<exists>xs. vault_post_search (\<lambda>t p. True) userPrincipal (Some (js ''' OR 1=1 --'')) exampleDb = (200, Items xs)
          \<and> length xs \<le> 2"
    by blast
  from c1 h2 c2 h3 c3 show ?thesis by blast
qed

subsection \<open>Items of other principals\<close>

text \<open>The primary key: two rows of the table with the same id are the same row.\<close>

lemma key_row:
  assumes "I \<in> set rows" and "distinct (map item_id rows)"
    and "r \<in> set rows" and "item_id r = item_id I"
  shows "r = I"
  using assms by (meson distinct_map inj_on_eq_iff)

lemma foreign_filter:
  assumes "I \<in> set rows" and "distinct (map item_id rows)" and "owner_id I \<noteq> p"
  shows "filter (\<lambda>r. item_id r = item_id I \<and> owner_id r = p) rows = []"
proof -
  have "\<not> (item_id r = item_id I \<and> owner_id r = p)" if "r \<in> set rows" for r
    using key_row [OF assms(1,2) that] assms(3) by auto
  then show ?thesis
    by (simp add: filter_empty_conv)
qed

lemma map_no_hit: "filter hit rows = [] \<Longrightarrow> map (\<lambda>r. if hit r then upd r else r) rows = rows"
  by (induction rows) (auto split: if_splits)

lemma filter_no_hit: "filter hit rows = [] \<Longrightarrow> filter (\<lambda>r. \<not> hit r) rows = rows"
  by (induction rows) (auto split: if_splits)

text \<open>
  Claim C3: a principal who is not an administrator and asks for an existing item of
  another principal, by any path parameter that reads as the item's id, gets 404 from
  \<open>GET /api/vault/:id\<close> and 404 from \<open>DELETE /api/vault/:id\<close>, and the tables
  stay as they are.
\<close>

theorem foreign_item_not_found:
  assumes "I \<in> set (vault_items d)"
    and "distinct (map item_id (vault_items d))"
    and "principal_role user \<noteq> js ''admin''"
    and "owner_id I \<noteq> principal_id user"
    and "parseInt idParam = Some (item_id I)"
  shows "vault_get_item user idParam d = (404, Error ''Vault item not found'')
         \<and> vault_delete_item user idParam d = ((404, Error ''Vault item not found''), d)"
proof -
  note f = foreign_filter [OF assms(1,2,4)]
  have g: "vault_get_item user idParam d = (404, Error ''Vault item not found'')"
    using assms(5) f by (simp add: vault_get_item_def)
  have "vault_delete_item user idParam d = ((404, Error ''Vault item not found''), d)"
    using assms(3,5) f filter_no_hit [OF f] by (simp add: vault_delete_item_def Let_def)
  with g show ?thesis by blast
qed

text \<open>The first user asks for item 9 of the second user.\<close>

theorem foreign_item_not_found_witness:
  "vault_get_item userPrincipal (js ''9'') exampleDb = (404, Error ''Vault item not found'')
   \<and> vault_delete_item userPrincipal (js ''9'') exampleDb = ((404, Error ''Vault item not found''), exampleDb)
   \<and> \<lparr>item_id = 9, owner_id = 3, item_name = js ''Other'', item_note = js ''Secret'',
        item_created_at = 12, item_updated_at = 12\<rparr> \<in> set (vault_items exampleDb)"
proof -
  define I where "I = \<lparr>item_id = 9, owner_id = 3, item_name = js ''Other'', item_note = js ''Secret'',
        item_created_at = 12, item_updated_at = 12\<rparr>"
  have h1: "I \<in> set (vault_items exampleDb)"
    by (simp add: I_def exampleDb_def exampleItems_def)
  have h2: "distinct (map item_id (vault_items exampleDb))"
    by (simp add: exampleDb_def exampleItems_def)
  have h3: "principal_role userPrincipal \<noteq> js ''admin''"
    by (simp add: userPrincipal_def js_def)
  have h4: "owner_id I \<noteq> principal_id userPrincipal"
    by (simp add: I_def userPrincipal_def)
  have h5: "parseInt (js ''9'') = Some (item_id I)"
    by (simp add: I_def parseInt_def js_def isWhiteSpace_def isDigit_def)
  from foreign_item_not_found [OF h1 h2 h3 h4 h5] h1 show ?thesis
    unfolding I_def by blast
qed

subsection \<open>Items of other principals, for an administrator\<close>

lemma validateUserUpdate_Inl:
  "validateUserUpdate isEmail normalizeEmail body = Inl res \<Longrightarrow> fst res = 400"
  by (auto simp: validateUserUpdate_def handleValidationErrors_def Let_def split: if_splits)

text \<open>
  Claim C1 says that an administrator's \<open>GET\<close>, \<open>PUT\<close> and \<open>DELETE\<close> of an item
  succeed whoever owns it. Only \<open>DELETE\<close> has the branch for the role. \<open>GET\<close> and
  \<open>PUT\<close> select by owner for every role: for an existing item of another principal
  the administrator gets 404 from both, and \<open>PUT\<close> changes nothing, while \<open>DELETE\<close> of
  the same item answers 200 and removes it. The request of the \<open>PUT\<close> is one that
  passes the validation, with a string as its name.
\<close>

theorem admin_foreign_item:
  assumes "principal_role user = js ''admin''"
    and "I \<in> set (vault_items d)"
    and "distinct (map item_id (vault_items d))"
    and "owner_id I \<noteq> principal_id user"
    and "parseInt idParam = Some (item_id I)"
    and "validateVaultItem chain body = Inr b"
    and "body_name b = JString name"
  shows "vault_get_item user idParam d = (404, Error ''Vault item not found'')
         \<and> vault_put_item chain driver user idParam body d = ((404, Error ''Vault item not found''), d)
         \<and> fst (vault_delete_item user idParam d) = (200, Message ''Vault item deleted successfully'')
         \<and> I \<notin> set (vault_items (snd (vault_delete_item user idParam d)))"
proof -
  note f = foreign_filter [OF assms(2,3,4)]
  have g: "vault_get_item user idParam d = (404, Error ''Vault item not found'')"
    using assms(5) f by (simp add: vault_get_item_def)
  have p: "vault_put_item chain driver user idParam body d = ((404, Error ''Vault item not found''), d)"
    using assms(5,6,7) f map_no_hit [OF f] by (simp add: vault_put_item_def Let_def)
  have "filter (\<lambda>r. item_id r = item_id I) (vault_items d) \<noteq> []"
    using assms(2) by (auto simp: filter_empty_conv)
  then have x: "fst (vault_delete_item user idParam d) = (200, Message ''Vault item deleted successfully'')"
    using assms(1,5) by (simp add: vault_delete_item_def Let_def)
  have "I \<notin> set (vault_items (snd (vault_delete_item user idParam d)))"
    using assms(1,5) by (simp add: vault_delete_item_def Let_def)
  with g p x show ?thesis by blast
qed

text \<open>The administrator and item 7 of the first user.\<close>

theorem admin_foreign_item_witness:
  "vault_get_item adminPrincipal (js ''7'') exampleDb = (404, Error ''Vault item not found'')
   \<and> vault_put_item exampleChain exampleDriver adminPrincipal (js ''7'')
         \<lparr>body_name = JString (js ''Renamed''), body_note = JUndefined\<rparr> exampleDb
       = ((404, Error ''Vault item not found''), exampleDb)
   \<and> fst (vault_delete_item adminPrincipal (js ''7'') exampleDb)
       = (200, Message ''Vault item deleted successfully'')
   \<and> principal_role adminPrincipal = js ''admin''
   \<and> 7 \<in> item_id ` set (vault_items exampleDb)"
proof -
  define I where "I = \<lparr>item_id = 7, owner_id = 2, item_name = js ''Item 1'', item_note = js ''Note 1'',
        item_created_at = 10, item_updated_at = 10\<rparr>"
  have h1: "principal_role adminPrincipal = js ''admin''"
    by (simp add: adminPrincipal_def)
  have h2: "I \<in> set (vault_items exampleDb)"
    by (simp add: I_def exampleDb_def exampleItems_def)
  have h3: "distinct (map item_id (vault_items exampleDb))"
    by (simp add: exampleDb_def exampleItems_def)
  have h4: "owner_id I \<noteq> principal_id adminPrincipal"
    by (simp add: I_def adminPrincipal_def)
  have h5: "parseInt (js ''7'') = Some (item_id I)"
    by (simp add: I_def parseInt_def js_def isWhiteSpace_def isDigit_def)
  have h6: "validateVaultItem exampleChain \<lparr>body_name = JString (js ''Renamed''), body_note = JUndefined\<rparr>
      = Inr \<lparr>body_name = JString (js ''Renamed''), body_note = JUndefined\<rparr>"
    by (simp add: validateVaultItem_def handleValidationErrors_def nameErrors_def noteErrors_def
        isLength_def validatorLen_def
        presentationSequences_def matchesName_def nameChar_def trim_def js_def isWhiteSpace_def)
  have h7: "body_name \<lparr>body_name = JString (js ''Renamed''), body_note = JUndefined\<rparr> = JString (js ''Renamed'')"
    by simp
  have h8: "7 \<in> item_id ` set (vault_items exampleDb)"
    by (simp add: exampleDb_def exampleItems_def)
  from admin_foreign_item [OF h1 h2 h3 h4 h5 h6 h7] h1 h8 show ?thesis
    by blast
qed

subsection \<open>The stored note\<close>














section \<open>Path identifiers\<close>

text \<open>
  A parameter in which \<open>parseInt\<close> finds no number is refused with 400 by each of the
  six routes, before any statement is sent (for the user routes, once the role check has
  let the request pass).
\<close>

lemma nan_id_rejected:
  assumes "parseInt idParam = None"
  shows "vault_get_item user idParam d = (400, Error ''Invalid item ID'')"
    and "fst (fst (vault_put_item chain driver user idParam body d)) = 400
         \<and> snd (vault_put_item chain driver user idParam body d) = d"
    and "vault_delete_item user idParam d = ((400, Error ''Invalid item ID''), d)"
    and "principal_role user = js ''admin'' \<Longrightarrow> users_get_user user idParam d = (400, Error ''Invalid user ID'')"
    and "principal_role user = js ''admin'' \<Longrightarrow>
           fst (fst (users_put_user isEmail normalizeEmail user idParam ubody d)) = 400
           \<and> snd (users_put_user isEmail normalizeEmail user idParam ubody d) = d"
    and "principal_role user = js ''admin'' \<Longrightarrow>
           users_delete_user user idParam d = ((400, Error ''Invalid user ID''), d)"
proof -
  show "vault_get_item user idParam d = (400, Error ''Invalid item ID'')"
    using assms by (simp add: vault_get_item_def)
  show "fst (fst (vault_put_item chain driver user idParam body d)) = 400
         \<and> snd (vault_put_item chain driver user idParam body d) = d"
    using assms validateVaultItem_Inl [of chain body]
    by (cases "validateVaultItem chain body") (simp_all add: vault_put_item_def)
  show "vault_delete_item user idParam d = ((400, Error ''Invalid item ID''), d)"
    using assms by (simp add: vault_delete_item_def)
  show "users_get_user user idParam d = (400, Error ''Invalid user ID'')"
    if "principal_role user = js ''admin''"
    using assms that by (simp add: users_get_user_def requireRole_def)
  show "fst (fst (users_put_user isEmail normalizeEmail user idParam ubody d)) = 400
           \<and> snd (users_put_user isEmail normalizeEmail user idParam ubody d) = d"
    if "principal_role user = js ''admin''"
    using assms that validateUserUpdate_Inl [of isEmail normalizeEmail ubody]
    by (cases "validateUserUpdate isEmail normalizeEmail ubody")
      (simp_all add: users_put_user_def requireRole_def)
  show "users_delete_user user idParam d = ((400, Error ''Invalid user ID''), d)"
    if "principal_role user = js ''admin''"
    using assms that by (simp add: users_delete_user_def requireRole_def)
qed

lemma parseInt_probe: "parseInt (js ''1; DROP TABLE vault_items; --'') = Some 1"
  by (simp add: parseInt_def js_def isWhiteSpace_def isDigit_def)

lemma delete_status: "parseInt idParam = Some n \<Longrightarrow> fst (fst (vault_delete_item user idParam d)) \<in> {200, 404}"
  by (simp add: vault_delete_item_def Let_def)

text \<open>
  Claim C8 says that a parameter which is not a non-negative integer is refused with 400
  before any query. \<open>parseInt\<close> reads the leading digits and drops the rest, and it
  reads a sign: the parameter \<open>1; DROP TABLE vault_items; --\<close>, for which the
  repository's own test expects 400, is read as 1 and never answered with 400; in the
  example tables \<open>7; DROP TABLE vault_items; --\<close> deletes item 7 of the requesting
  user; and \<open>-5\<close> is read as \<open>-5\<close> and looked up, with 404 as the answer.
\<close>

theorem delete_reads_leading_digits:
  "parseInt (js ''1; DROP TABLE vault_items; --'') = Some 1
   \<and> fst (fst (vault_delete_item user (js ''1; DROP TABLE vault_items; --'') d)) \<noteq> 400
   \<and> fst (vault_delete_item userPrincipal (js ''7; DROP TABLE vault_items; --'') exampleDb)
       = (200, Message ''Vault item deleted successfully'')
   \<and> map item_id (vault_items (snd (vault_delete_item userPrincipal (js ''7; DROP TABLE vault_items; --'') exampleDb)))
       = [8, 9]
   \<and> parseInt (js ''-5'') = Some (- 5)
   \<and> vault_get_item user (js ''-5'') exampleDb = (404, Error ''Vault item not found'')"
proof -
  have c2: "fst (fst (vault_delete_item user (js ''1; DROP TABLE vault_items; --'') d)) \<noteq> 400"
    using delete_status [OF parseInt_probe, of user d] by auto
  have p7: "parseInt (js ''7; DROP TABLE vault_items; --'') = Some 7"
    by (simp add: parseInt_def js_def isWhiteSpace_def isDigit_def)
  have r: "vault_delete_item userPrincipal (js ''7; DROP TABLE vault_items; --'') exampleDb =
       ((200, Message ''Vault item deleted successfully''),
        exampleDb\<lparr>vault_items := filter (\<lambda>r. \<not> (item_id r = 7 \<and> owner_id r = 2)) (vault_items exampleDb)\<rparr>)"
    unfolding vault_delete_item_def p7
    by (simp add: userPrincipal_def js_def exampleDb_def exampleItems_def)
  have c3: "fst (vault_delete_item userPrincipal (js ''7; DROP TABLE vault_items; --'') exampleDb)
       = (200, Message ''Vault item deleted successfully'')"
    unfolding r by simp
  have c4: "map item_id (vault_items (snd (vault_delete_item userPrincipal (js ''7; DROP TABLE vault_items; --'') exampleDb)))
       = [8, 9]"
    unfolding r by (simp add: exampleDb_def exampleItems_def)
  have c5: "parseInt (js ''-5'') = Some (- 5)"
    by (simp add: parseInt_def js_def isWhiteSpace_def isDigit_def)
  have c6: "vault_get_item user (js ''-5'') exampleDb = (404, Error ''Vault item not found'')"
    unfolding vault_get_item_def c5 by (simp add: exampleDb_def exampleItems_def)
  from parseInt_probe c2 c3 c4 c5 c6 show ?thesis by blast
qed

section \<open>The user routes\<close>

lemma requireRole_admin: "principal_role user = js ''admin'' \<Longrightarrow> requireRole (js ''admin'') user = None"
  by (simp add: requireRole_def)

text \<open>
  Claim C9: for an administrator, \<open>DELETE /api/users/:id\<close> with the administrator's own
  id is answered with 400 and leaves the tables as they are; and whenever the route
  answers 200 or changes the tables, the parameter reads as an id other than the
  requester's.
\<close>

theorem own_account_not_deleted:
  assumes "principal_role user = js ''admin''"
  shows "(parseInt idParam = Some (principal_id user) \<longrightarrow>
            users_delete_user user idParam d = ((400, Error ''Cannot delete your own account''), d))
         \<and> (fst (fst (users_delete_user user idParam d)) = 200 \<or> snd (users_delete_user user idParam d) \<noteq> d \<longrightarrow>
              (\<exists>userId. parseInt idParam = Some userId \<and> userId \<noteq> principal_id user))"
proof (intro conjI impI)
  assume "parseInt idParam = Some (principal_id user)"
  then show "users_delete_user user idParam d = ((400, Error ''Cannot delete your own account''), d)"
    by (simp add: users_delete_user_def requireRole_admin [OF assms])
next
  assume a: "fst (fst (users_delete_user user idParam d)) = 200 \<or> snd (users_delete_user user idParam d) \<noteq> d"
  show "\<exists>userId. parseInt idParam = Some userId \<and> userId \<noteq> principal_id user"
  proof (cases "parseInt idParam")
    case None
    with a show ?thesis
      by (simp add: users_delete_user_def requireRole_admin [OF assms])
  next
    case (Some userId)
    with a have "userId \<noteq> principal_id user"
      by (auto simp: users_delete_user_def requireRole_admin [OF assms])
    with Some show ?thesis by blast
  qed
qed

text \<open>
  The administrator tries the own id, then deletes the second user, whose item goes too.
\<close>

theorem own_account_not_deleted_witness:
  "users_delete_user adminPrincipal (js ''1'') exampleDb
       = ((400, Error ''Cannot delete your own account''), exampleDb)
   \<and> fst (users_delete_user adminPrincipal (js ''3'') exampleDb) = (200, Message ''User deleted successfully'')
   \<and> map user_id (users (snd (users_delete_user adminPrincipal (js ''3'') exampleDb))) = [1, 2]
   \<and> map item_id (vault_items (snd (users_delete_user adminPrincipal (js ''3'') exampleDb))) = [7, 8]
   \<and> (\<exists>userId. parseInt (js ''3'') = Some userId \<and> userId \<noteq> principal_id adminPrincipal)"
proof -
  have h: "principal_role adminPrincipal = js ''admin''"
    by (simp add: adminPrincipal_def)
  have p1: "parseInt (js ''1'') = Some (principal_id adminPrincipal)"
    by (simp add: adminPrincipal_def parseInt_def js_def isWhiteSpace_def isDigit_def)
  have p3: "parseInt (js ''3'') = Some 3"
    by (simp add: parseInt_def js_def isWhiteSpace_def isDigit_def)
  have r: "users_delete_user adminPrincipal (js ''3'') exampleDb =
      ((200, Message ''User deleted successfully''),
       exampleDb\<lparr>users := filter (\<lambda>u. user_id u \<noteq> 3) (users exampleDb),
                 vault_items := filter (\<lambda>r. owner_id r \<noteq> 3) (vault_items exampleDb)\<rparr>)"
    unfolding users_delete_user_def requireRole_admin [OF h] p3
    by (simp add: adminPrincipal_def exampleDb_def exampleUsers_def)
  have c2: "fst (users_delete_user adminPrincipal (js ''3'') exampleDb) = (200, Message ''User deleted successfully'')"
    unfolding r by simp
  have c3: "map user_id (users (snd (users_delete_user adminPrincipal (js ''3'') exampleDb))) = [1, 2]"
    unfolding r by (simp add: exampleDb_def exampleUsers_def)
  have c4: "map item_id (vault_items (snd (users_delete_user adminPrincipal (js ''3'') exampleDb))) = [7, 8]"
    unfolding r by (simp add: exampleDb_def exampleItems_def)
  note a = own_account_not_deleted [OF h, of "js ''1''" exampleDb]
  note b = own_account_not_deleted [OF h, of "js ''3''" exampleDb]
  from a p1 have c1: "users_delete_user adminPrincipal (js ''1'') exampleDb
       = ((400, Error ''Cannot delete your own account''), exampleDb)"
    by blast
  from b c2 have c5: "\<exists>userId. parseInt (js ''3'') = Some userId \<and> userId \<noteq> principal_id adminPrincipal"
    by simp
  from c1 c2 c3 c4 c5 show ?thesis by blast
qed

end
